theory Spec2Isabelle
  imports Complex_Main
begin

section \<open>The vertex shader of TracksFilter\<close>

text \<open>
  Source: \<^verbatim>\<open>napari/_vispy/filters/tracks.py\<close>, \<^verbatim>\<open>TracksFilter.VERT_SHADER\<close>.

  The shader is a GLSL function run once per vertex. The template variables
  \<^verbatim>\<open>$current_time\<close>, \<^verbatim>\<open>$current_z\<close>, \<^verbatim>\<open>$use_fade\<close>, \<^verbatim>\<open>$interactive\<close>,
  \<^verbatim>\<open>$tail_length\<close> and \<^verbatim>\<open>$head_length\<close> are float uniforms, shared by all vertices;
  \<^verbatim>\<open>$a_vertex_time\<close> and \<^verbatim>\<open>$a_vertex_z\<close> are the attributes of the vertex at hand.

  GLSL floats are idealised as real numbers: rounding, infinities and NaN are not
  modelled. The one place where the idealisation would hide something is the
  division of the fade branch. GLSL does not trap on a division by zero, its result
  is unspecified; the model keeps that as the value \<open>None\<close> of type \<open>real option\<close>
  (and never as HOL's \<open>x / 0 = 0\<close>).
\<close>

record uniforms =
  current_time :: real
  current_z :: real
  use_fade :: real
  interactive :: real
  tail_length :: real
  head_length :: real

text \<open>The varyings the function writes: the alpha of \<^verbatim>\<open>v_track_color\<close> and \<^verbatim>\<open>v_size\<close>.\<close>

record varyings =
  v_track_color_a :: "real option"
  v_size :: real

text \<open>GLSL's \<^verbatim>\<open>clamp(x, minVal, maxVal)\<close> is \<^verbatim>\<open>min(max(x, minVal), maxVal)\<close>.\<close>

definition clamp :: "real \<Rightarrow> real \<Rightarrow> real \<Rightarrow> real" where
  "clamp x minVal maxVal = min (max x minVal) maxVal"

text \<open>A float division whose result is unspecified when the divisor is zero.\<close>

definition gl_div :: "real \<Rightarrow> real \<Rightarrow> real option" where
  "gl_div x y = (if y = 0 then None else Some (x / y))"

text \<open>\<^verbatim>\<open>float max_distance = 3;\<close>\<close>

definition max_distance :: real where
  "max_distance = 3"

text \<open>\<^verbatim>\<open>float z_distance = ($current_z >= 0 ? max_distance : 1e10);\<close>\<close>

definition z_distance :: "uniforms \<Rightarrow> real" where
  "z_distance u = (if current_z u \<ge> 0 then max_distance else 10 ^ 10)"

text \<open>\<^verbatim>\<open>float size_factor = 1.0 - abs($current_z - $a_vertex_z) / max_distance;\<close>\<close>

definition size_factor :: "uniforms \<Rightarrow> real \<Rightarrow> real" where
  "size_factor u a_vertex_z = 1 - \<bar>current_z u - a_vertex_z\<bar> / max_distance"

text \<open>
  The second disjunct of the outer \<^verbatim>\<open>if\<close> (line 59): the depth cull of the
  interactive mode. The first disjunct (line 58) is the cutoff ahead of the head.
\<close>

definition depth_culled :: "uniforms \<Rightarrow> real \<Rightarrow> bool" where
  "depth_culled u a_vertex_z \<longleftrightarrow>
     interactive u = 1 \<and> \<bar>current_z u - a_vertex_z\<bar> > z_distance u"

text \<open>
  Line 71, \<^verbatim>\<open>float fade = ($head_length + $current_time - $a_vertex_time) /
  ($tail_length + $head_length);\<close>
\<close>

definition fade :: "uniforms \<Rightarrow> real \<Rightarrow> real option" where
  "fade u a_vertex_time =
     gl_div (head_length u + current_time u - a_vertex_time) (tail_length u + head_length u)"

text \<open>
  \<^verbatim>\<open>void apply_track_shading()\<close> of the vertex shader, statement by statement. The
  incoming \<^verbatim>\<open>v_size\<close> is an argument, the outgoing varyings are the result.
\<close>

definition apply_track_shading :: "uniforms \<Rightarrow> real \<Rightarrow> real \<Rightarrow> real \<Rightarrow> varyings" where
  "apply_track_shading u a_vertex_time a_vertex_z v_size_in =
     (let v_size_out = clamp (size_factor u a_vertex_z) 0 1 * v_size_in;
          alpha =
            (if a_vertex_time > current_time u + head_length u \<or>
                (interactive u = 1 \<and> \<bar>current_z u - a_vertex_z\<bar> > z_distance u)
             then (if a_vertex_time \<le> current_time u + 1 then Some (- 100) else Some 0)
             else map_option (\<lambda>fade. clamp (1 - fade) 0 1) (fade u a_vertex_time));
          alpha = (if use_fade u = 0 then Some 1 else alpha)
      in \<lparr>v_track_color_a = alpha, v_size = v_size_out\<rparr>)"

text \<open>
  The uniforms of the example of the specification: \<^verbatim>\<open>current_time=10, tail_length=5,
  head_length=2, use_fade=true\<close>, not interactive, at depth 0.
\<close>

definition example_uniforms :: uniforms where
  "example_uniforms = \<lparr>current_time = 10, current_z = 0, use_fade = 1, interactive = 0,
                        tail_length = 5, head_length = 2\<rparr>"

section \<open>The Python class TracksFilter\<close>

text \<open>
  Source: \<^verbatim>\<open>napari/_vispy/filters/tracks.py\<close>, class \<^verbatim>\<open>TracksFilter\<close>.

  The values a property can be assigned: the annotations say \<^verbatim>\<open>Union[int, float]\<close> and
  \<^verbatim>\<open>bool\<close>, the setters of \<^verbatim>\<open>current_time\<close> and \<^verbatim>\<open>current_z\<close> also handle a
  \<^verbatim>\<open>slice\<close> and \<^verbatim>\<open>None\<close>. Python floats are idealised as reals, as are the float32
  entries of the vertex arrays.
\<close>

datatype pyval = PyNone | PyBool bool | PyInt int | PyFloat real | PySlice

datatype error = TypeError | AttributeError | ValueError

text \<open>What a shader variable can be bound to: a float uniform or a vertex buffer.\<close>

datatype gl_value = GLFloat real | VertexBuffer "real list"

text \<open>
  The instance. An attribute that has not been assigned yet does not exist in Python;
  here it is \<open>None\<close>. \<open>vshader\<close> holds the bindings made by
  \<^verbatim>\<open>self.vshader['name'] = value\<close>.
\<close>

record TracksFilter =
  p_current_time :: "pyval option"
  p_current_z :: "pyval option"
  p_use_fade :: "pyval option"
  p_interactive :: "pyval option"
  p_tail_length :: "pyval option"
  p_head_length :: "pyval option"
  p_vertex_time :: "real list option"
  p_vertex_z :: "real list option"
  vshader :: "string \<rightharpoonup> gl_value"

text \<open>Sequencing of calls that may raise: the first exception ends the run.\<close>

definition and_then :: "error + 'a \<Rightarrow> ('a \<Rightarrow> error + 'b) \<Rightarrow> error + 'b" where
  "and_then r f = (case r of Inl e \<Rightarrow> Inl e | Inr x \<Rightarrow> f x)"

text \<open>Python's \<^verbatim>\<open>float(n)\<close>.\<close>

fun py_float :: "pyval \<Rightarrow> error + real" where
  "py_float (PyBool b) = Inr (if b then 1 else 0)"
| "py_float (PyInt i) = Inr (of_int i)"
| "py_float (PyFloat x) = Inr x"
| "py_float PyNone = Inl TypeError"
| "py_float PySlice = Inl TypeError"

text \<open>\<^verbatim>\<open>np.max\<close> of an array; numpy raises ValueError on an empty one.\<close>

fun np_max :: "real list \<Rightarrow> error + real" where
  "np_max [] = Inl ValueError"
| "np_max (x # xs) = Inr (fold max xs x)"

text \<open>Reading an attribute that may not exist.\<close>

definition getattr :: "'a option \<Rightarrow> error + 'a" where
  "getattr a = (case a of None \<Rightarrow> Inl AttributeError | Some v \<Rightarrow> Inr v)"

text \<open>\<^verbatim>\<open>self.vshader[name] = float(n)\<close>\<close>

definition upload_float :: "string \<Rightarrow> error + real \<Rightarrow> TracksFilter \<Rightarrow> error + TracksFilter" where
  "upload_float name r self =
     and_then r (\<lambda>x. Inr (self\<lparr>vshader := (vshader self)(name \<mapsto> GLFloat x)\<rparr>))"

subsection \<open>The properties, lines 129 to 207\<close>

definition get_current_time :: "TracksFilter \<Rightarrow> error + pyval" where
  "get_current_time self = getattr (p_current_time self)"

definition set_current_time :: "pyval \<Rightarrow> TracksFilter \<Rightarrow> error + TracksFilter" where
  "set_current_time n self =
     (let self = self\<lparr>p_current_time := Some n\<rparr>
      in upload_float ''current_time''
           (if n = PySlice then and_then (getattr (p_vertex_time self)) np_max
            else py_float n) self)"

definition get_current_z :: "TracksFilter \<Rightarrow> error + pyval" where
  "get_current_z self = getattr (p_current_z self)"

definition set_current_z :: "pyval \<Rightarrow> TracksFilter \<Rightarrow> error + TracksFilter" where
  "set_current_z n self =
     (let self = self\<lparr>p_current_z := Some n\<rparr>
      in upload_float ''current_z'' (if n = PyNone then Inr (- 1) else py_float n) self)"

definition get_use_fade :: "TracksFilter \<Rightarrow> error + pyval" where
  "get_use_fade self = getattr (p_use_fade self)"

definition set_use_fade :: "pyval \<Rightarrow> TracksFilter \<Rightarrow> error + TracksFilter" where
  "set_use_fade v self =
     (let self = self\<lparr>p_use_fade := Some v\<rparr>
      in upload_float ''use_fade'' (and_then (getattr (p_use_fade self)) py_float) self)"

definition get_interactive :: "TracksFilter \<Rightarrow> error + pyval" where
  "get_interactive self = getattr (p_interactive self)"

definition set_interactive :: "pyval \<Rightarrow> TracksFilter \<Rightarrow> error + TracksFilter" where
  "set_interactive v self =
     (let self = self\<lparr>p_interactive := Some v\<rparr>
      in upload_float ''interactive'' (and_then (getattr (p_interactive self)) py_float) self)"

definition get_tail_length :: "TracksFilter \<Rightarrow> error + pyval" where
  "get_tail_length self = getattr (p_tail_length self)"

definition set_tail_length :: "pyval \<Rightarrow> TracksFilter \<Rightarrow> error + TracksFilter" where
  "set_tail_length v self =
     (let self = self\<lparr>p_tail_length := Some v\<rparr>
      in upload_float ''tail_length'' (and_then (getattr (p_tail_length self)) py_float) self)"

text \<open>Line 181: the getter of \<^verbatim>\<open>head_length\<close> returns \<^verbatim>\<open>self._tail_length\<close>.\<close>

definition get_head_length :: "TracksFilter \<Rightarrow> error + pyval" where
  "get_head_length self = getattr (p_tail_length self)"

definition set_head_length :: "pyval \<Rightarrow> TracksFilter \<Rightarrow> error + TracksFilter" where
  "set_head_length v self =
     (let self = self\<lparr>p_head_length := Some v\<rparr>
      in upload_float ''head_length'' (and_then (getattr (p_head_length self)) py_float) self)"

definition get_vertex_time :: "TracksFilter \<Rightarrow> error + real list" where
  "get_vertex_time self = getattr (p_vertex_time self)"

definition set_vertex_time :: "real list \<Rightarrow> TracksFilter \<Rightarrow> error + TracksFilter" where
  "set_vertex_time v_time self =
     (let self = self\<lparr>p_vertex_time := Some v_time\<rparr>
      in and_then (get_vertex_time self)
           (\<lambda>a. Inr (self\<lparr>vshader := (vshader self)(''a_vertex_time'' \<mapsto> VertexBuffer a)\<rparr>)))"

definition get_vertex_z :: "TracksFilter \<Rightarrow> error + real list" where
  "get_vertex_z self = getattr (p_vertex_z self)"

definition set_vertex_z :: "real list \<Rightarrow> TracksFilter \<Rightarrow> error + TracksFilter" where
  "set_vertex_z v_z self =
     (let self = self\<lparr>p_vertex_z := Some v_z\<rparr>
      in and_then (get_vertex_z self)
           (\<lambda>a. Inr (self\<lparr>vshader := (vshader self)(''a_vertex_z'' \<mapsto> VertexBuffer a)\<rparr>)))"

subsection \<open>The constructor, lines 104 to 127\<close>

text \<open>
  The instance after \<^verbatim>\<open>super().__init__(...)\<close>: no attribute of the class is assigned
  and no shader variable is bound yet.
\<close>

definition blank :: TracksFilter where
  "blank = \<lparr>p_current_time = None, p_current_z = None, p_use_fade = None,
            p_interactive = None, p_tail_length = None, p_head_length = None,
            p_vertex_time = None, p_vertex_z = None, vshader = Map.empty\<rparr>"

definition init ::
  "pyval \<Rightarrow> pyval \<Rightarrow> pyval \<Rightarrow> pyval \<Rightarrow> pyval \<Rightarrow> pyval \<Rightarrow> real list \<Rightarrow> real list
     \<Rightarrow> error + TracksFilter" where
  "init current_time_arg current_z_arg tail_length_arg head_length_arg use_fade_arg
        interactive_arg vertex_time_arg vertex_z_arg =
     and_then (set_current_time current_time_arg blank) (\<lambda>self.
     and_then (set_current_z current_z_arg self) (\<lambda>self.
     and_then (set_tail_length tail_length_arg self) (\<lambda>self.
     and_then (set_head_length head_length_arg self) (\<lambda>self.
     and_then (set_use_fade use_fade_arg self) (\<lambda>self.
     and_then (set_interactive interactive_arg self) (\<lambda>self.
     and_then (set_vertex_time vertex_time_arg self) (\<lambda>self.
     set_vertex_z vertex_z_arg self)))))))"

text \<open>
  The constructor with the default values of the six parameters of the signature
  (\<^verbatim>\<open>current_time=0, current_z=0, tail_length=30, head_length=0, use_fade=True,
  interactive=False\<close>) and the given vertex arrays.
\<close>

definition init_default :: "real list \<Rightarrow> real list \<Rightarrow> error + TracksFilter" where
  "init_default vertex_time_arg vertex_z_arg =
     init (PyInt 0) (PyInt 0) (PyInt 30) (PyInt 0) (PyBool True) (PyBool False)
          vertex_time_arg vertex_z_arg"

subsection \<open>From the bindings to the uniforms the shader reads\<close>

definition bound_float :: "(string \<rightharpoonup> gl_value) \<Rightarrow> string \<Rightarrow> real option" where
  "bound_float m name = (case m name of Some (GLFloat x) \<Rightarrow> Some x | _ \<Rightarrow> None)"

definition shader_uniforms :: "TracksFilter \<Rightarrow> uniforms option" where
  "shader_uniforms self =
     (case (bound_float (vshader self) ''current_time'', bound_float (vshader self) ''current_z'',
            bound_float (vshader self) ''use_fade'', bound_float (vshader self) ''interactive'',
            bound_float (vshader self) ''tail_length'', bound_float (vshader self) ''head_length'')
      of (Some ct, Some cz, Some uf, Some ia, Some tail, Some head) \<Rightarrow>
           Some \<lparr>current_time = ct, current_z = cz, use_fade = uf, interactive = ia,
                 tail_length = tail, head_length = head\<rparr>
       | _ \<Rightarrow> None)"

text \<open>
  What the vertex shader computes for the vertex with the given time and depth when it
  runs with the uniforms of a filter: the alpha of the vertex. The outer \<open>None\<close> says
  that a uniform is not bound, the inner one that the alpha is unspecified.
\<close>

definition vertex_alpha :: "TracksFilter \<Rightarrow> real \<Rightarrow> real \<Rightarrow> real option option" where
  "vertex_alpha self a_vertex_time a_vertex_z =
     map_option (\<lambda>u. v_track_color_a (apply_track_shading u a_vertex_time a_vertex_z 1))
       (shader_uniforms self)"

subsection \<open>Assignments as data\<close>

datatype assignment =
    CurrentTime pyval
  | CurrentZ pyval
  | TailLength pyval
  | HeadLength pyval
  | UseFade pyval
  | Interactive pyval
  | VertexTime "real list"
  | VertexZ "real list"

fun assign :: "assignment \<Rightarrow> TracksFilter \<Rightarrow> error + TracksFilter" where
  "assign (CurrentTime v) self = set_current_time v self"
| "assign (CurrentZ v) self = set_current_z v self"
| "assign (TailLength v) self = set_tail_length v self"
| "assign (HeadLength v) self = set_head_length v self"
| "assign (UseFade v) self = set_use_fade v self"
| "assign (Interactive v) self = set_interactive v self"
| "assign (VertexTime v) self = set_vertex_time v self"
| "assign (VertexZ v) self = set_vertex_z v self"

fun assign_all :: "assignment list \<Rightarrow> TracksFilter \<Rightarrow> error + TracksFilter" where
  "assign_all [] self = Inr self"
| "assign_all (a # as) self = and_then (assign a self) (assign_all as)"

text \<open>Python's \<^verbatim>\<open>v >= 0\<close> on the values that have an order with 0.\<close>

fun py_nonneg :: "pyval \<Rightarrow> bool" where
  "py_nonneg (PyBool b) = True"
| "py_nonneg (PyInt i) = (i \<ge> 0)"
| "py_nonneg (PyFloat x) = (x \<ge> 0)"
| "py_nonneg PyNone = False"
| "py_nonneg PySlice = False"

text \<open>
  The invariant of the data model: both lengths are there and are not negative, as
  attributes and as uniforms.
\<close>

definition lengths_nonneg :: "TracksFilter \<Rightarrow> bool" where
  "lengths_nonneg self \<longleftrightarrow>
     (case p_tail_length self of None \<Rightarrow> False | Some v \<Rightarrow> py_nonneg v) \<and>
     (case p_head_length self of None \<Rightarrow> False | Some v \<Rightarrow> py_nonneg v) \<and>
     (case bound_float (vshader self) ''tail_length'' of None \<Rightarrow> False | Some x \<Rightarrow> x \<ge> 0) \<and>
     (case bound_float (vshader self) ''head_length'' of None \<Rightarrow> False | Some x \<Rightarrow> x \<ge> 0)"

text \<open>An assignment that does not give a length a negative value.\<close>

fun keeps_lengths_nonneg :: "assignment \<Rightarrow> bool" where
  "keeps_lengths_nonneg (TailLength v) = py_nonneg v"
| "keeps_lengths_nonneg (HeadLength v) = py_nonneg v"
| "keeps_lengths_nonneg _ = True"

section \<open>Mouse bindings of the tracks layer\<close>

text \<open>
  Source: \<^verbatim>\<open>napari/layers/tracks/_tracks_mouse_bindings.py\<close>, the generator function
  \<^verbatim>\<open>interact(layer, event)\<close>.

  The event is one mutable object: the caller updates its type and position in place
  before it resumes the generator. A value of the record below is the content of
  the event at one such moment.
\<close>

record event =
  modifiers :: "string list"
  position :: "real list"
  event_type :: string

text \<open>The calls made on the layer, in the order in which they are made.\<close>

datatype call =
    Add "real list" nat
  | Select "real list"
  | Remove nat
  | Move nat "real list"
  | Join nat nat

text \<open>
  Modelled from the spec: the class of the layer is not among the sources. The spec
  calls it a track-editing collaborator exposing \<^verbatim>\<open>add(position, track_id)\<close>,
  \<^verbatim>\<open>select(position) -> optional vertex id\<close>, \<^verbatim>\<open>remove(vertex id)\<close>,
  \<^verbatim>\<open>move(vertex id, position)\<close> and \<^verbatim>\<open>join(id, id)\<close>. The record has the two
  attributes that \<^verbatim>\<open>interact\<close> reads and writes, and the log of the calls received. What
  \<^verbatim>\<open>select\<close> answers is a parameter \<open>sel\<close>, a function of the layer and the position.
\<close>

record tracks_layer =
  current_track_id :: nat
  selected_data :: "nat option"
  calls :: "call list"

definition layer_add :: "real list \<Rightarrow> nat \<Rightarrow> tracks_layer \<Rightarrow> tracks_layer" where
  "layer_add pos track_id l = l\<lparr>calls := calls l @ [Add pos track_id]\<rparr>"

definition layer_select ::
  "(tracks_layer \<Rightarrow> real list \<Rightarrow> nat option) \<Rightarrow> real list \<Rightarrow> tracks_layer
     \<Rightarrow> nat option \<times> tracks_layer" where
  "layer_select sel pos l = (sel l pos, l\<lparr>calls := calls l @ [Select pos]\<rparr>)"

definition layer_remove :: "nat \<Rightarrow> tracks_layer \<Rightarrow> tracks_layer" where
  "layer_remove v l = l\<lparr>calls := calls l @ [Remove v]\<rparr>"

definition layer_move :: "nat \<Rightarrow> real list \<Rightarrow> tracks_layer \<Rightarrow> tracks_layer" where
  "layer_move v pos l = l\<lparr>calls := calls l @ [Move v pos]\<rparr>"

definition layer_join :: "nat \<Rightarrow> nat \<Rightarrow> tracks_layer \<Rightarrow> tracks_layer" where
  "layer_join a b l = l\<lparr>calls := calls l @ [Join a b]\<rparr>"

text \<open>
  The generator object: not started yet, suspended at the \<^verbatim>\<open>yield\<close> of line 18 or
  at the one of line 22 (with the local \<^verbatim>\<open>selected\<close>), or finished.
\<close>

datatype generator = Created | AtLine18 nat | AtLine22 nat | Finished

text \<open>The body from line 5 up to the first \<^verbatim>\<open>yield\<close> or to its end.\<close>

definition from_start ::
  "(tracks_layer \<Rightarrow> real list \<Rightarrow> nat option) \<Rightarrow> event \<Rightarrow> tracks_layer
     \<Rightarrow> generator \<times> tracks_layer" where
  "from_start sel ev l =
     (if length (modifiers ev) = 1 then
        (if modifiers ev ! 0 = ''Shift'' then
           (Finished, layer_add (position ev) (current_track_id l) l)
         else if modifiers ev ! 0 = ''Alt'' then
           (case layer_select sel (position ev) l of
              (None, l) \<Rightarrow> (Finished, l)
            | (Some selected, l) \<Rightarrow> (Finished, layer_remove selected l))
         else if modifiers ev ! 0 = ''Control'' then
           (case layer_select sel (position ev) l of
              (None, l) \<Rightarrow> (Finished, l)
            | (Some selected, l) \<Rightarrow> (AtLine18 selected, l))
         else (Finished, l))
      else if length (modifiers ev) = 2 then
        (if ''Shift'' \<in> set (modifiers ev) \<and> ''Control'' \<in> set (modifiers ev) then
           (case layer_select sel (position ev) l of
              (selected, l) \<Rightarrow>
                (case selected_data l of
                   None \<Rightarrow> (Finished, l\<lparr>selected_data := selected\<rparr>)
                 | Some d \<Rightarrow>
                     (case selected of
                        None \<Rightarrow> (Finished, l)
                      | Some v \<Rightarrow> (Finished, layer_join d v l))))
         else (Finished, l))
      else (Finished, l))"

text \<open>The loop of lines 20 to 22, entered at its test after either \<^verbatim>\<open>yield\<close>.\<close>

definition while_test :: "nat \<Rightarrow> event \<Rightarrow> tracks_layer \<Rightarrow> generator \<times> tracks_layer" where
  "while_test selected ev l =
     (if event_type ev = ''mouse_move'' then (AtLine22 selected, layer_move selected (position ev) l)
      else (Finished, l))"

text \<open>
  One \<^verbatim>\<open>next()\<close> on the generator, the event having the given content. On a
  finished generator it raises StopIteration and does nothing.
\<close>

fun resume ::
  "(tracks_layer \<Rightarrow> real list \<Rightarrow> nat option) \<Rightarrow> event \<Rightarrow> generator \<times> tracks_layer
     \<Rightarrow> generator \<times> tracks_layer" where
  "resume sel ev (Created, l) = from_start sel ev l"
| "resume sel ev (AtLine18 selected, l) = while_test selected ev l"
| "resume sel ev (AtLine22 selected, l) = while_test selected ev l"
| "resume sel ev (Finished, l) = (Finished, l)"

text \<open>
  Modelled from the spec: the caller of \<^verbatim>\<open>interact\<close> is not among the sources. By
  the spec the drag begins on press and the generator gets control again on each
  later event. \<open>interact\<close> is the call on the press event followed by one
  \<^verbatim>\<open>next()\<close> for each later content of the event.
\<close>

fun resume_all ::
  "(tracks_layer \<Rightarrow> real list \<Rightarrow> nat option) \<Rightarrow> event list \<Rightarrow> generator \<times> tracks_layer
     \<Rightarrow> generator \<times> tracks_layer" where
  "resume_all sel [] g = g"
| "resume_all sel (ev # evs) g = resume_all sel evs (resume sel ev g)"

definition interact ::
  "(tracks_layer \<Rightarrow> real list \<Rightarrow> nat option) \<Rightarrow> tracks_layer \<Rightarrow> event \<Rightarrow> event list
     \<Rightarrow> generator \<times> tracks_layer" where
  "interact sel l ev later = resume_all sel (ev # later) (Created, l)"

text \<open>
  A drag for the examples: a press at (1, 2) with one modifier held on a layer that
  has received no call, where \<^verbatim>\<open>select\<close> finds vertex 4; then two moves, the release,
  and a move that comes after the release.
\<close>

definition press :: "string \<Rightarrow> event" where
  "press m = \<lparr>modifiers = [m], position = [1, 2], event_type = ''mouse_press''\<rparr>"

definition after_press :: "event list" where
  "after_press =
     [\<lparr>modifiers = [], position = [2, 2], event_type = ''mouse_move''\<rparr>,
      \<lparr>modifiers = [], position = [3, 2], event_type = ''mouse_move''\<rparr>,
      \<lparr>modifiers = [], position = [3, 2], event_type = ''mouse_release''\<rparr>,
      \<lparr>modifiers = [], position = [9, 9], event_type = ''mouse_move''\<rparr>]"

definition fresh_layer :: tracks_layer where
  "fresh_layer = \<lparr>current_track_id = 7, selected_data = None, calls = []\<rparr>"

definition finds_4 :: "tracks_layer \<Rightarrow> real list \<Rightarrow> nat option" where
  "finds_4 l pos = Some 4"

section \<open>ImageSliceData\<close>

text \<open>
  Source: \<^verbatim>\<open>napari/layers/image/_image_slice_data.py\<close>.

  The attribute \<^verbatim>\<open>image\<close> is the field \<open>image_array\<close> and the method
  \<^verbatim>\<open>transpose\<close> is \<open>transpose_slice\<close>, as HOL has constants of these names. The
  layer, the indices and the arrays are of any type. \<^verbatim>\<open>np.asarray\<close> and
  \<^verbatim>\<open>np.transpose\<close> are parameters; they may raise. A method returns the instance as
  it is when the method ends, and the exception if one was raised.
\<close>

record ('l, 'i, 'a) ImageSliceData =
  layer :: 'l
  indices :: 'i
  image_array :: 'a
  thumbnail_source :: "'a option"

definition load_sync ::
  "('a \<Rightarrow> 'e + 'a) \<Rightarrow> ('l, 'i, 'a) ImageSliceData \<Rightarrow> ('l, 'i, 'a) ImageSliceData \<times> 'e option" where
  "load_sync np_asarray self =
     (case np_asarray (image_array self) of
        Inl e \<Rightarrow> (self, Some e)
      | Inr img \<Rightarrow>
          (let self = self\<lparr>image_array := img\<rparr>
           in case thumbnail_source self of
                None \<Rightarrow> (self, None)
              | Some src \<Rightarrow>
                  (case np_asarray src of
                     Inl e \<Rightarrow> (self, Some e)
                   | Inr t \<Rightarrow> (self\<lparr>thumbnail_source := Some t\<rparr>, None))))"

definition transpose_slice ::
  "('a \<Rightarrow> 'o \<Rightarrow> 'e + 'a) \<Rightarrow> 'o \<Rightarrow> ('l, 'i, 'a) ImageSliceData
     \<Rightarrow> ('l, 'i, 'a) ImageSliceData \<times> 'e option" where
  "transpose_slice np_transpose order self =
     (case np_transpose (image_array self) order of
        Inl e \<Rightarrow> (self, Some e)
      | Inr img \<Rightarrow>
          (let self = self\<lparr>image_array := img\<rparr>
           in case thumbnail_source self of
                None \<Rightarrow> (self, None)
              | Some src \<Rightarrow>
                  (case np_transpose src order of
                     Inl e \<Rightarrow> (self, Some e)
                   | Inr t \<Rightarrow> (self\<lparr>thumbnail_source := Some t\<rparr>, None))))"

text \<open>
  A slice without a thumbnail source, and stand-ins for the two numpy functions:
  \<^verbatim>\<open>np.asarray\<close> returns a list of rows as it is, \<^verbatim>\<open>np.transpose\<close> accepts the
  two orders of a matrix and raises for any other.
\<close>

definition example_slice :: "(string, nat list, int list list) ImageSliceData" where
  "example_slice = \<lparr>layer = ''image'', indices = [0], image_array = [[1, 2], [3, 4]],
                     thumbnail_source = None\<rparr>"

definition example_asarray :: "int list list \<Rightarrow> error + int list list" where
  "example_asarray a = Inr a"

definition example_transpose :: "int list list \<Rightarrow> nat list \<Rightarrow> error + int list list" where
  "example_transpose a order =
     (if order = [0, 1] then Inr a
      else if order = [1, 0] then Inr (transpose a)
      else Inl ValueError)"

section \<open>Properties of the shader\<close>

text \<open>
  The Python setters upload \<^verbatim>\<open>float(value)\<close> for the two flags, so a true flag is
  the uniform 1 and a false one the uniform 0. The shader tests \<^verbatim>\<open>$use_fade == 0\<close>
  and \<^verbatim>\<open>$interactive == 1\<close>; the lemmas are stated for these tests, which covers
  the two values the setters produce from a bool.
\<close>

lemma alpha_no_fade:
  "use_fade u = 0 \<Longrightarrow> v_track_color_a (apply_track_shading u t z s) = Some 1"
  by (simp add: apply_track_shading_def Let_def)


lemma alpha_culled:
  "use_fade u \<noteq> 0 \<Longrightarrow> depth_culled u z \<Longrightarrow>
   v_track_color_a (apply_track_shading u t z s) =
     Some (if t \<le> current_time u + 1 then - 100 else 0)"
  by (simp add: apply_track_shading_def Let_def depth_culled_def)

lemma alpha_shown:
  "use_fade u \<noteq> 0 \<Longrightarrow> t \<le> current_time u + head_length u \<Longrightarrow> \<not> depth_culled u z \<Longrightarrow>
   v_track_color_a (apply_track_shading u t z s) =
     map_option (\<lambda>f. clamp (1 - f) 0 1) (fade u t)"
  by (auto simp: apply_track_shading_def Let_def depth_culled_def)


lemma fade_undefined:
  "tail_length u + head_length u = 0 \<Longrightarrow> fade u t = None"
  by (simp add: fade_def gl_div_def)


subsection \<open>Vertices ahead of the head\<close>




subsection \<open>The fade inside the window\<close>



subsection \<open>Fading switched off\<close>

text \<open>
  Claim C3: whenever \<^verbatim>\<open>use_fade\<close> is false (the uniform is 0), the alpha is exactly
  1.0 for every vertex time and depth, current time and depth, tail and head length
  and interactive flag; the assignment of lines 76 to 78 comes last and overrides both
  the branch of the hidden vertices and the fade branch.
\<close>

theorem use_fade_off_alpha_one:
  assumes "use_fade u = 0"
  shows "v_track_color_a (apply_track_shading u a_vertex_time a_vertex_z s) = Some 1"
  using assms by (rule alpha_no_fade)

text \<open>
  The witness: fading off, interactive, a vertex culled by depth and ahead of the head,
  both lengths zero.
\<close>

theorem use_fade_off_alpha_one_witness:
  "use_fade \<lparr>current_time = 10, current_z = 0, use_fade = 0, interactive = 1,
             tail_length = 0, head_length = 0\<rparr> = 0 \<and>
   v_track_color_a (apply_track_shading
     \<lparr>current_time = 10, current_z = 0, use_fade = 0, interactive = 1,
      tail_length = 0, head_length = 0\<rparr> 11 5 1) = Some 1"
  using use_fade_off_alpha_one [of "\<lparr>current_time = 10, current_z = 0, use_fade = 0,
      interactive = 1, tail_length = 0, head_length = 0\<rparr>" 11 5 1]
  by simp

subsection \<open>Strictly inside the window\<close>



subsection \<open>Depth outside the interactive mode\<close>

text \<open>
  Claim C6: when \<^verbatim>\<open>interactive\<close> is false (the uniform is not 1), the alpha does not
  depend on depth: two runs that agree on the vertex time, the current time, the tail
  length, the head length and \<^verbatim>\<open>use_fade\<close> give the same alpha, whatever the vertex
  depths, the current depths and the incoming sizes are.
\<close>

theorem depth_independent_alpha:
  assumes "interactive u \<noteq> 1" and "interactive u' \<noteq> 1"
    and "current_time u' = current_time u"
    and "tail_length u' = tail_length u"
    and "head_length u' = head_length u"
    and "use_fade u' = use_fade u"
  shows "v_track_color_a (apply_track_shading u' a_vertex_time z' s') =
         v_track_color_a (apply_track_shading u a_vertex_time z s)"
  using assms by (simp add: apply_track_shading_def Let_def fade_def)

text \<open>
  The witness: the example at depth 0 with a vertex at depth 0, against the same
  filter at depth 50 with a vertex at depth 7.
\<close>

theorem depth_independent_alpha_witness:
  "interactive example_uniforms \<noteq> 1 \<and>
   interactive (example_uniforms\<lparr>current_z := 50\<rparr>) \<noteq> 1 \<and>
   current_time (example_uniforms\<lparr>current_z := 50\<rparr>) = current_time example_uniforms \<and>
   tail_length (example_uniforms\<lparr>current_z := 50\<rparr>) = tail_length example_uniforms \<and>
   head_length (example_uniforms\<lparr>current_z := 50\<rparr>) = head_length example_uniforms \<and>
   use_fade (example_uniforms\<lparr>current_z := 50\<rparr>) = use_fade example_uniforms \<and>
   v_track_color_a (apply_track_shading (example_uniforms\<lparr>current_z := 50\<rparr>) 9 7 2) =
   v_track_color_a (apply_track_shading example_uniforms 9 0 1)"
proof -
  have i: "interactive example_uniforms \<noteq> 1"
    by (simp add: example_uniforms_def)
  have i': "interactive (example_uniforms\<lparr>current_z := 50\<rparr>) \<noteq> 1"
    by (simp add: example_uniforms_def)
  show ?thesis
    using i i'
      depth_independent_alpha [OF i i', of 9 7 2 0 1]
    by simp
qed


section \<open>Properties of TracksFilter\<close>

lemmas setter_defs = set_current_time_def set_current_z_def set_use_fade_def set_interactive_def
  set_tail_length_def set_head_length_def set_vertex_time_def set_vertex_z_def
  get_vertex_time_def get_vertex_z_def upload_float_def and_then_def getattr_def Let_def

lemma and_then_Inr: "and_then r f = Inr y \<Longrightarrow> \<exists>x. r = Inr x \<and> f x = Inr y"
  by (cases r) (auto simp: and_then_def)

lemma py_float_nonneg: "py_nonneg v \<Longrightarrow> py_float v = Inr x \<Longrightarrow> x \<ge> 0"
  by (cases v) auto

subsection \<open>What a setter that returns has done\<close>

lemma upload_float_Inr:
  "upload_float name r self = Inr self' \<Longrightarrow>
   \<exists>x. r = Inr x \<and> self' = self\<lparr>vshader := (vshader self)(name \<mapsto> GLFloat x)\<rparr>"
  by (cases r) (auto simp: upload_float_def and_then_def)

lemma set_current_time_Inr:
  "set_current_time v self = Inr self' \<Longrightarrow>
   \<exists>x. self' = self\<lparr>p_current_time := Some v,
                     vshader := (vshader self)(''current_time'' \<mapsto> GLFloat x)\<rparr>"
  unfolding set_current_time_def Let_def by (drule upload_float_Inr) auto

lemma set_current_z_Inr:
  "set_current_z v self = Inr self' \<Longrightarrow>
   \<exists>x. self' = self\<lparr>p_current_z := Some v,
                     vshader := (vshader self)(''current_z'' \<mapsto> GLFloat x)\<rparr>"
  unfolding set_current_z_def Let_def by (drule upload_float_Inr) auto

lemma set_use_fade_Inr:
  "set_use_fade v self = Inr self' \<Longrightarrow>
   \<exists>x. py_float v = Inr x \<and>
       self' = self\<lparr>p_use_fade := Some v,
                    vshader := (vshader self)(''use_fade'' \<mapsto> GLFloat x)\<rparr>"
  unfolding set_use_fade_def Let_def
  by (drule upload_float_Inr) (auto simp: and_then_def getattr_def)

lemma set_interactive_Inr:
  "set_interactive v self = Inr self' \<Longrightarrow>
   \<exists>x. py_float v = Inr x \<and>
       self' = self\<lparr>p_interactive := Some v,
                    vshader := (vshader self)(''interactive'' \<mapsto> GLFloat x)\<rparr>"
  unfolding set_interactive_def Let_def
  by (drule upload_float_Inr) (auto simp: and_then_def getattr_def)

lemma set_tail_length_Inr:
  "set_tail_length v self = Inr self' \<Longrightarrow>
   \<exists>x. py_float v = Inr x \<and>
       self' = self\<lparr>p_tail_length := Some v,
                    vshader := (vshader self)(''tail_length'' \<mapsto> GLFloat x)\<rparr>"
  unfolding set_tail_length_def Let_def
  by (drule upload_float_Inr) (auto simp: and_then_def getattr_def)

lemma set_head_length_Inr:
  "set_head_length v self = Inr self' \<Longrightarrow>
   \<exists>x. py_float v = Inr x \<and>
       self' = self\<lparr>p_head_length := Some v,
                    vshader := (vshader self)(''head_length'' \<mapsto> GLFloat x)\<rparr>"
  unfolding set_head_length_def Let_def
  by (drule upload_float_Inr) (auto simp: and_then_def getattr_def)

lemma set_vertex_time_Inr:
  "set_vertex_time v self = Inr self' \<Longrightarrow>
   self' = self\<lparr>p_vertex_time := Some v,
                vshader := (vshader self)(''a_vertex_time'' \<mapsto> VertexBuffer v)\<rparr>"
  by (simp add: set_vertex_time_def get_vertex_time_def and_then_def getattr_def Let_def)

lemma set_vertex_z_Inr:
  "set_vertex_z v self = Inr self' \<Longrightarrow>
   self' = self\<lparr>p_vertex_z := Some v,
                vshader := (vshader self)(''a_vertex_z'' \<mapsto> VertexBuffer v)\<rparr>"
  by (simp add: set_vertex_z_def get_vertex_z_def and_then_def getattr_def Let_def)

text \<open>The filter that the constructor builds from the default values.\<close>

lemma init_default_value:
  "init_default vt vz = Inr \<lparr>p_current_time = Some (PyInt 0), p_current_z = Some (PyInt 0),
     p_use_fade = Some (PyBool True), p_interactive = Some (PyBool False),
     p_tail_length = Some (PyInt 30), p_head_length = Some (PyInt 0),
     p_vertex_time = Some vt, p_vertex_z = Some vz,
     vshader = [''current_time'' \<mapsto> GLFloat 0, ''current_z'' \<mapsto> GLFloat 0,
                ''tail_length'' \<mapsto> GLFloat 30, ''head_length'' \<mapsto> GLFloat 0,
                ''use_fade'' \<mapsto> GLFloat 1, ''interactive'' \<mapsto> GLFloat 0,
                ''a_vertex_time'' \<mapsto> VertexBuffer vt, ''a_vertex_z'' \<mapsto> VertexBuffer vz]\<rparr>"
  by (simp add: init_default_def init_def blank_def setter_defs)

subsection \<open>A window of length zero\<close>

lemma alpha_zero_window:
  assumes "tail_length u + head_length u = 0" and "use_fade u \<noteq> 0"
    and "t \<le> current_time u + head_length u" and "\<not> depth_culled u z"
  shows "v_track_color_a (apply_track_shading u t z s) = None"
  using assms by (simp add: alpha_shown fade_undefined)

text \<open>
  Claim C4 says that with \<^verbatim>\<open>tail_length + head_length == 0\<close> and \<^verbatim>\<open>use_fade\<close> true
  the division of the fade branch is never evaluated with a zero denominator: the
  setters reject or clamp the configuration, or the shader takes the fade to be 0. The
  code does none of this. The constructor accepts \<^verbatim>\<open>tail_length=0, head_length=0,
  use_fade=True\<close>, the uniforms bound are the two zeros as given, and for the vertex at
  time 0 (the current time) the shader divides 0 by 0: its alpha is unspecified, where
  a fade of 0 would have made it 1.
\<close>

theorem zero_window_division:
  "and_then (init (PyInt 0) (PyInt 0) (PyInt 0) (PyInt 0) (PyBool True) (PyBool False) [0] [0])
     (\<lambda>self. Inr (shader_uniforms self, vertex_alpha self 0 0)) =
   Inr (Some \<lparr>current_time = 0, current_z = 0, use_fade = 1, interactive = 0,
               tail_length = 0, head_length = 0\<rparr>, Some None)"
  by (simp add: init_def blank_def setter_defs shader_uniforms_def bound_float_def
      vertex_alpha_def apply_track_shading_def fade_def gl_div_def)

subsection \<open>Assigning a property and reading it back\<close>

text \<open>
  Five of the six properties read back the value assigned, and the uniform of each
  holds the float made from it.
\<close>

lemma current_time_round_trip:
  assumes "set_current_time v self = Inr self'"
  shows "get_current_time self' = Inr v"
    and "v \<noteq> PySlice \<Longrightarrow> py_float v = Inr x \<Longrightarrow>
         bound_float (vshader self') ''current_time'' = Some x"
    and "v = PySlice \<Longrightarrow> and_then (getattr (p_vertex_time self)) np_max = Inr x \<Longrightarrow>
         bound_float (vshader self') ''current_time'' = Some x"
  using assms
  by (auto simp: set_current_time_def get_current_time_def Let_def getattr_def bound_float_def
      dest!: upload_float_Inr)

lemma current_z_round_trip:
  assumes "set_current_z v self = Inr self'"
  shows "get_current_z self' = Inr v"
    and "v = PyNone \<Longrightarrow> bound_float (vshader self') ''current_z'' = Some (- 1)"
    and "v \<noteq> PyNone \<Longrightarrow> py_float v = Inr x \<Longrightarrow>
         bound_float (vshader self') ''current_z'' = Some x"
  using assms
  by (auto simp: set_current_z_def get_current_z_def Let_def getattr_def bound_float_def
      dest!: upload_float_Inr)

lemma use_fade_round_trip:
  assumes "set_use_fade v self = Inr self'"
  shows "get_use_fade self' = Inr v"
    and "py_float v = Inr x \<Longrightarrow> bound_float (vshader self') ''use_fade'' = Some x"
  using assms
  by (auto simp: get_use_fade_def getattr_def bound_float_def dest!: set_use_fade_Inr)

lemma interactive_round_trip:
  assumes "set_interactive v self = Inr self'"
  shows "get_interactive self' = Inr v"
    and "py_float v = Inr x \<Longrightarrow> bound_float (vshader self') ''interactive'' = Some x"
  using assms
  by (auto simp: get_interactive_def getattr_def bound_float_def dest!: set_interactive_Inr)

lemma tail_length_round_trip:
  assumes "set_tail_length v self = Inr self'"
  shows "get_tail_length self' = Inr v"
    and "py_float v = Inr x \<Longrightarrow> bound_float (vshader self') ''tail_length'' = Some x"
  using assms
  by (auto simp: get_tail_length_def getattr_def bound_float_def dest!: set_tail_length_Inr)

text \<open>
  The sixth does not: the getter of \<^verbatim>\<open>head_length\<close> returns what the getter of
  \<^verbatim>\<open>tail_length\<close> returned before the assignment. The attribute and the uniform do
  hold the new value.
\<close>

lemma head_length_reads_tail_length:
  assumes "set_head_length v self = Inr self'"
  shows "get_head_length self' = get_tail_length self"
    and "p_head_length self' = Some v"
    and "py_float v = Inr x \<Longrightarrow> bound_float (vshader self') ''head_length'' = Some x"
  using assms
  by (auto simp: get_head_length_def get_tail_length_def bound_float_def
      dest!: set_head_length_Inr)

text \<open>
  Claim C7 says that after assigning a value to any of the six properties, reading the
  same property returns that value. On the filter built with the default values
  (\<^verbatim>\<open>tail_length=30\<close>), after \<^verbatim>\<open>head_length = 5\<close> the property \<^verbatim>\<open>head_length\<close> reads
  30, while the attribute \<^verbatim>\<open>_head_length\<close> is 5 and the uniform is 5.0.
\<close>

theorem head_length_getter_after_set:
  "and_then (init_default [0] [0])
     (\<lambda>self. and_then (set_head_length (PyInt 5) self)
        (\<lambda>self. Inr (get_head_length self, p_head_length self,
                      bound_float (vshader self) ''head_length''))) =
   Inr (Inr (PyInt 30), Some (PyInt 5), Some 5)"
  by (simp add: init_default_value and_then_def set_head_length_def upload_float_def getattr_def
      get_head_length_def bound_float_def Let_def)

subsection \<open>Lengths that are not negative\<close>

lemma assign_lengths_nonneg:
  assumes "lengths_nonneg self" and "keeps_lengths_nonneg a" and "assign a self = Inr self'"
  shows "lengths_nonneg self'"
proof (cases a)
  case (CurrentTime v)
  with assms(3) obtain x where "self' = self\<lparr>p_current_time := Some v,
      vshader := (vshader self)(''current_time'' \<mapsto> GLFloat x)\<rparr>"
    by (auto dest: set_current_time_Inr)
  with assms(1) show ?thesis by (simp add: lengths_nonneg_def bound_float_def)
next
  case (CurrentZ v)
  with assms(3) obtain x where "self' = self\<lparr>p_current_z := Some v,
      vshader := (vshader self)(''current_z'' \<mapsto> GLFloat x)\<rparr>"
    by (auto dest: set_current_z_Inr)
  with assms(1) show ?thesis by (simp add: lengths_nonneg_def bound_float_def)
next
  case (TailLength v)
  with assms(3) obtain x where x: "py_float v = Inr x" and "self' = self\<lparr>p_tail_length := Some v,
      vshader := (vshader self)(''tail_length'' \<mapsto> GLFloat x)\<rparr>"
    by (auto dest: set_tail_length_Inr)
  moreover from TailLength assms(2) x have "x \<ge> 0" "py_nonneg v"
    by (auto dest: py_float_nonneg)
  ultimately show ?thesis using assms(1) by (simp add: lengths_nonneg_def bound_float_def)
next
  case (HeadLength v)
  with assms(3) obtain x where x: "py_float v = Inr x" and "self' = self\<lparr>p_head_length := Some v,
      vshader := (vshader self)(''head_length'' \<mapsto> GLFloat x)\<rparr>"
    by (auto dest: set_head_length_Inr)
  moreover from HeadLength assms(2) x have "x \<ge> 0" "py_nonneg v"
    by (auto dest: py_float_nonneg)
  ultimately show ?thesis using assms(1) by (simp add: lengths_nonneg_def bound_float_def)
next
  case (UseFade v)
  with assms(3) obtain x where "self' = self\<lparr>p_use_fade := Some v,
      vshader := (vshader self)(''use_fade'' \<mapsto> GLFloat x)\<rparr>"
    by (auto dest: set_use_fade_Inr)
  with assms(1) show ?thesis by (simp add: lengths_nonneg_def bound_float_def)
next
  case (Interactive v)
  with assms(3) obtain x where "self' = self\<lparr>p_interactive := Some v,
      vshader := (vshader self)(''interactive'' \<mapsto> GLFloat x)\<rparr>"
    by (auto dest: set_interactive_Inr)
  with assms(1) show ?thesis by (simp add: lengths_nonneg_def bound_float_def)
next
  case (VertexTime v)
  with assms(3) have "self' = self\<lparr>p_vertex_time := Some v,
      vshader := (vshader self)(''a_vertex_time'' \<mapsto> VertexBuffer v)\<rparr>"
    by (auto dest: set_vertex_time_Inr)
  with assms(1) show ?thesis by (simp add: lengths_nonneg_def bound_float_def)
next
  case (VertexZ v)
  with assms(3) have "self' = self\<lparr>p_vertex_z := Some v,
      vshader := (vshader self)(''a_vertex_z'' \<mapsto> VertexBuffer v)\<rparr>"
    by (auto dest: set_vertex_z_Inr)
  with assms(1) show ?thesis by (simp add: lengths_nonneg_def bound_float_def)
qed

lemma assign_all_lengths_nonneg:
  "lengths_nonneg self \<Longrightarrow> list_all keeps_lengths_nonneg as \<Longrightarrow> assign_all as self = Inr self'
   \<Longrightarrow> lengths_nonneg self'"
proof (induction as arbitrary: self)
  case Nil
  then show ?case by simp
next
  case (Cons a as)
  from Cons.prems(3) obtain mid where mid: "assign a self = Inr mid" "assign_all as mid = Inr self'"
    by (auto simp: and_then_def split: sum.splits)
  from Cons.prems(1,2) mid(1) have "lengths_nonneg mid"
    by (auto intro: assign_lengths_nonneg)
  with Cons.IH mid(2) Cons.prems(2) show ?case by simp
qed

lemma init_lengths_nonneg:
  assumes "py_nonneg tail_arg" and "py_nonneg head_arg"
    and "init ct cz tail_arg head_arg uf ia vt vz = Inr self"
  shows "lengths_nonneg self"
proof -
  from assms(3) obtain s1 where
    r1: "and_then (set_current_z cz s1) (\<lambda>self.
         and_then (set_tail_length tail_arg self) (\<lambda>self.
         and_then (set_head_length head_arg self) (\<lambda>self.
         and_then (set_use_fade uf self) (\<lambda>self.
         and_then (set_interactive ia self) (\<lambda>self.
         and_then (set_vertex_time vt self) (\<lambda>self.
         set_vertex_z vz self)))))) = Inr self"
    unfolding init_def by (blast dest: and_then_Inr)
  then obtain s2 where
    r2: "and_then (set_tail_length tail_arg s2) (\<lambda>self.
         and_then (set_head_length head_arg self) (\<lambda>self.
         and_then (set_use_fade uf self) (\<lambda>self.
         and_then (set_interactive ia self) (\<lambda>self.
         and_then (set_vertex_time vt self) (\<lambda>self.
         set_vertex_z vz self))))) = Inr self"
    by (blast dest: and_then_Inr)
  then obtain s3 where s3: "set_tail_length tail_arg s2 = Inr s3" and
    r3: "and_then (set_head_length head_arg s3) (\<lambda>self.
         and_then (set_use_fade uf self) (\<lambda>self.
         and_then (set_interactive ia self) (\<lambda>self.
         and_then (set_vertex_time vt self) (\<lambda>self.
         set_vertex_z vz self)))) = Inr self"
    by (blast dest: and_then_Inr)
  then obtain s4 where s4: "set_head_length head_arg s3 = Inr s4" and
    r4: "and_then (set_use_fade uf s4) (\<lambda>self.
         and_then (set_interactive ia self) (\<lambda>self.
         and_then (set_vertex_time vt self) (\<lambda>self.
         set_vertex_z vz self))) = Inr self"
    by (blast dest: and_then_Inr)
  from s3 obtain x where x: "py_float tail_arg = Inr x" and
    e3: "s3 = s2\<lparr>p_tail_length := Some tail_arg,
                  vshader := (vshader s2)(''tail_length'' \<mapsto> GLFloat x)\<rparr>"
    by (auto dest: set_tail_length_Inr)
  from s4 obtain y where y: "py_float head_arg = Inr y" and
    e4: "s4 = s3\<lparr>p_head_length := Some head_arg,
                  vshader := (vshader s3)(''head_length'' \<mapsto> GLFloat y)\<rparr>"
    by (auto dest: set_head_length_Inr)
  from assms(1,2) x y have "x \<ge> 0" "y \<ge> 0"
    by (auto dest: py_float_nonneg)
  with assms(1,2) e3 e4 have "lengths_nonneg s4"
    by (simp add: lengths_nonneg_def bound_float_def)
  moreover have "list_all keeps_lengths_nonneg [UseFade uf, Interactive ia, VertexTime vt, VertexZ vz]"
    by simp
  moreover from r4 have "assign_all [UseFade uf, Interactive ia, VertexTime vt, VertexZ vz] s4 = Inr self"
    by (auto simp: and_then_def split: sum.splits)
  ultimately show ?thesis by (rule assign_all_lengths_nonneg)
qed

text \<open>
  Claim C8, as stated: \<^verbatim>\<open>tail_length >= 0\<close> and \<^verbatim>\<open>head_length >= 0\<close> hold after
  construction and every parameter-setting operation preserves them, negative values
  never being accepted into the state. It fails: the filter built with the default
  values has both lengths non-negative, and after \<^verbatim>\<open>tail_length = -1\<close>, which the
  setter accepts, it has not.
\<close>

theorem negative_length_counterexample:
  "map_sum id lengths_nonneg (init_default [0] [0]) = Inr True \<and>
   map_sum id lengths_nonneg
     (and_then (init_default [0] [0]) (set_tail_length (PyInt (- 1)))) = Inr False"
  by (simp add: init_default_value and_then_def set_tail_length_def upload_float_def getattr_def
      lengths_nonneg_def bound_float_def Let_def)

text \<open>
  Claim C8, amended: \<^verbatim>\<open>tail_length >= 0\<close> and \<^verbatim>\<open>head_length >= 0\<close> hold after a
  construction whose \<^verbatim>\<open>tail_length\<close> and \<^verbatim>\<open>head_length\<close> arguments are not negative
  (the defaults 30 and 0 are not), and they are preserved by every sequence of
  parameter-setting operations that assigns no negative value to a length. The
  setters validate nothing; a length stays non-negative because its callers keep it so.
\<close>

theorem lengths_nonneg_invariant:
  assumes "py_nonneg tail_arg" and "py_nonneg head_arg"
    and "init ct cz tail_arg head_arg uf ia vt vz = Inr self"
    and "list_all keeps_lengths_nonneg as"
    and "assign_all as self = Inr self'"
  shows "lengths_nonneg self \<and> lengths_nonneg self'"
proof -
  from assms(1,2,3) have "lengths_nonneg self" by (rule init_lengths_nonneg)
  moreover from this assms(4,5) have "lengths_nonneg self'" by (rule assign_all_lengths_nonneg)
  ultimately show ?thesis by simp
qed

text \<open>
  The witness: the constructor with the default values, then four assignments, all of
  which return.
\<close>

theorem lengths_nonneg_invariant_witness:
  "py_nonneg (PyInt 30) \<and> py_nonneg (PyInt 0) \<and>
   list_all keeps_lengths_nonneg
     [TailLength (PyFloat (5 / 2)), CurrentTime (PyInt 7), HeadLength (PyInt 3),
      UseFade (PyBool False)] \<and>
   (\<exists>self self'.
      init (PyInt 0) (PyInt 0) (PyInt 30) (PyInt 0) (PyBool True) (PyBool False) [0, 1] [0, 0]
        = Inr self \<and>
      assign_all [TailLength (PyFloat (5 / 2)), CurrentTime (PyInt 7), HeadLength (PyInt 3),
                  UseFade (PyBool False)] self = Inr self' \<and>
      lengths_nonneg self \<and> lengths_nonneg self')"
proof -
  have t: "py_nonneg (PyInt 30)" and h: "py_nonneg (PyInt 0)"
    by simp_all
  have l: "list_all keeps_lengths_nonneg
     [TailLength (PyFloat (5 / 2)), CurrentTime (PyInt 7), HeadLength (PyInt 3),
      UseFade (PyBool False)]"
    by simp
  obtain self where i:
    "init (PyInt 0) (PyInt 0) (PyInt 30) (PyInt 0) (PyBool True) (PyBool False) [0, 1] [0, 0]
       = Inr self"
    using init_default_value [of "[0, 1]" "[0, 0]"] by (simp add: init_default_def)
  have "\<exists>self'. assign_all [TailLength (PyFloat (5 / 2)), CurrentTime (PyInt 7),
          HeadLength (PyInt 3), UseFade (PyBool False)] self = Inr self'"
    by (simp add: setter_defs)
  then obtain self' where a:
    "assign_all [TailLength (PyFloat (5 / 2)), CurrentTime (PyInt 7), HeadLength (PyInt 3),
                 UseFade (PyBool False)] self = Inr self'"
    by blast
  from lengths_nonneg_invariant [OF t h i l a] t h l i a show ?thesis
    by blast
qed

section \<open>Properties of the mouse bindings\<close>

lemma resume_all_Finished: "resume_all sel evs (Finished, l) = (Finished, l)"
  by (induction evs) auto

lemma calls_resume_all_AtLine22:
  "calls (snd (resume_all sel evs (AtLine22 v, l))) =
   calls l @ map (\<lambda>e. Move v (position e)) (takeWhile (\<lambda>e. event_type e = ''mouse_move'') evs)"
proof (induction evs arbitrary: l)
  case Nil
  then show ?case by simp
next
  case (Cons e evs)
  show ?case
  proof (cases "event_type e = ''mouse_move''")
    case True
    then have "resume sel e (AtLine22 v, l) = (AtLine22 v, layer_move v (position e) l)"
      by (simp add: while_test_def)
    with True Cons.IH [of "layer_move v (position e) l"] show ?thesis
      by (simp add: layer_move_def)
  next
    case False
    then have "resume sel e (AtLine22 v, l) = (Finished, l)"
      by (simp add: while_test_def)
    with False show ?thesis
      by (simp add: resume_all_Finished)
  qed
qed

lemma calls_resume_all_AtLine18:
  "calls (snd (resume_all sel evs (AtLine18 v, l))) =
   calls l @ map (\<lambda>e. Move v (position e)) (takeWhile (\<lambda>e. event_type e = ''mouse_move'') evs)"
proof (cases evs)
  case Nil
  then show ?thesis by simp
next
  case (Cons e es)
  show ?thesis
  proof (cases "event_type e = ''mouse_move''")
    case True
    then have "resume sel e (AtLine18 v, l) = (AtLine22 v, layer_move v (position e) l)"
      by (simp add: while_test_def)
    with True Cons show ?thesis
      by (simp add: calls_resume_all_AtLine22 layer_move_def)
  next
    case False
    then have "resume sel e (AtLine18 v, l) = (Finished, l)"
      by (simp add: while_test_def)
    with False Cons show ?thesis
      by (simp add: resume_all_Finished)
  qed
qed

text \<open>
  Claim C9: when \<^verbatim>\<open>interact\<close> is invoked with exactly one modifier held, Shift calls
  \<^verbatim>\<open>add(position, current_track_id)\<close>; Alt calls \<^verbatim>\<open>select(position)\<close> and then
  \<^verbatim>\<open>remove(selected)\<close> if and only if \<^verbatim>\<open>select\<close> returned a vertex; Control calls
  \<^verbatim>\<open>select(position)\<close> and, only when a vertex was selected, calls
  \<^verbatim>\<open>move(selected, position)\<close> on each later event, with the position the event then
  has, as long as the events are of type \<^verbatim>\<open>mouse_move\<close>. The layer receives no other
  call, and none at all for any other single modifier.
\<close>

theorem one_modifier_calls:
  assumes "modifiers ev = [m]"
  shows "calls (snd (interact sel l ev later)) = calls l @
     (if m = ''Shift'' then [Add (position ev) (current_track_id l)]
      else if m = ''Alt'' then
        Select (position ev) #
          (case sel l (position ev) of None \<Rightarrow> [] | Some selected \<Rightarrow> [Remove selected])
      else if m = ''Control'' then
        Select (position ev) #
          (case sel l (position ev) of
             None \<Rightarrow> []
           | Some selected \<Rightarrow>
               map (\<lambda>e. Move selected (position e))
                 (takeWhile (\<lambda>e. event_type e = ''mouse_move'') later))
      else [])"
proof -
  consider (shift) "m = ''Shift''" | (alt) "m = ''Alt''" | (control) "m = ''Control''"
    | (other) "m \<noteq> ''Shift''" "m \<noteq> ''Alt''" "m \<noteq> ''Control''"
    by blast
  then show ?thesis
  proof cases
    case shift
    with assms have "from_start sel ev l = (Finished, layer_add (position ev) (current_track_id l) l)"
      by (simp add: from_start_def)
    with shift show ?thesis
      by (simp add: interact_def resume_all_Finished layer_add_def)
  next
    case alt
    show ?thesis
    proof (cases "sel l (position ev)")
      case None
      with alt assms have "from_start sel ev l = (Finished, l\<lparr>calls := calls l @ [Select (position ev)]\<rparr>)"
        by (simp add: from_start_def layer_select_def)
      with alt None show ?thesis
        by (simp add: interact_def resume_all_Finished)
    next
      case (Some v)
      with alt assms have "from_start sel ev l =
          (Finished, layer_remove v (l\<lparr>calls := calls l @ [Select (position ev)]\<rparr>))"
        by (simp add: from_start_def layer_select_def)
      with alt Some show ?thesis
        by (simp add: interact_def resume_all_Finished layer_remove_def)
    qed
  next
    case control
    show ?thesis
    proof (cases "sel l (position ev)")
      case None
      with control assms have "from_start sel ev l = (Finished, l\<lparr>calls := calls l @ [Select (position ev)]\<rparr>)"
        by (simp add: from_start_def layer_select_def)
      with control None show ?thesis
        by (simp add: interact_def resume_all_Finished)
    next
      case (Some v)
      with control assms have "from_start sel ev l =
          (AtLine18 v, l\<lparr>calls := calls l @ [Select (position ev)]\<rparr>)"
        by (simp add: from_start_def layer_select_def)
      with control Some show ?thesis
        by (simp add: interact_def calls_resume_all_AtLine18)
    qed
  next
    case other
    with assms have "from_start sel ev l = (Finished, l)"
      by (simp add: from_start_def)
    with other show ?thesis
      by (simp add: interact_def resume_all_Finished)
  qed
qed

text \<open>
  The witness: the drag of the examples with Control held, then the same press with
  Shift and with Alt.
\<close>

theorem one_modifier_calls_witness:
  "modifiers (press ''Control'') = [''Control''] \<and>
   calls (snd (interact finds_4 fresh_layer (press ''Control'') after_press)) =
     [Select [1, 2], Move 4 [2, 2], Move 4 [3, 2]] \<and>
   modifiers (press ''Shift'') = [''Shift''] \<and>
   calls (snd (interact finds_4 fresh_layer (press ''Shift'') after_press)) = [Add [1, 2] 7] \<and>
   modifiers (press ''Alt'') = [''Alt''] \<and>
   calls (snd (interact finds_4 fresh_layer (press ''Alt'') after_press)) =
     [Select [1, 2], Remove 4]"
proof -
  have c: "modifiers (press ''Control'') = [''Control'']"
    and s: "modifiers (press ''Shift'') = [''Shift'']"
    and a: "modifiers (press ''Alt'') = [''Alt'']"
    by (simp_all add: press_def)
  show ?thesis
    using c s a
      one_modifier_calls [OF c, of finds_4 fresh_layer after_press]
      one_modifier_calls [OF s, of finds_4 fresh_layer after_press]
      one_modifier_calls [OF a, of finds_4 fresh_layer after_press]
    by (simp add: press_def after_press_def fresh_layer_def finds_4_def)
qed

section \<open>Properties of ImageSliceData\<close>

text \<open>
  Claim C10: \<^verbatim>\<open>load_sync\<close> and \<^verbatim>\<open>transpose\<close> modify only the fields \<^verbatim>\<open>image\<close> and
  \<^verbatim>\<open>thumbnail_source\<close>: for every instance, \<^verbatim>\<open>layer\<close> and \<^verbatim>\<open>indices\<close> are unchanged
  by both, also when a numpy call raises; and when \<^verbatim>\<open>thumbnail_source\<close> is None both
  leave it None and apply the numpy function to \<^verbatim>\<open>image\<close> only.
\<close>

theorem slice_data_frame:
  "layer (fst (load_sync np_asarray self)) = layer self \<and>
   indices (fst (load_sync np_asarray self)) = indices self \<and>
   layer (fst (transpose_slice np_transpose order self)) = layer self \<and>
   indices (fst (transpose_slice np_transpose order self)) = indices self \<and>
   fst (load_sync np_asarray self) =
     self\<lparr>image_array := image_array (fst (load_sync np_asarray self)),
          thumbnail_source := thumbnail_source (fst (load_sync np_asarray self))\<rparr> \<and>
   fst (transpose_slice np_transpose order self) =
     self\<lparr>image_array := image_array (fst (transpose_slice np_transpose order self)),
          thumbnail_source := thumbnail_source (fst (transpose_slice np_transpose order self))\<rparr> \<and>
   (thumbnail_source self = None \<longrightarrow>
      load_sync np_asarray self =
        (case np_asarray (image_array self) of
           Inl e \<Rightarrow> (self, Some e)
         | Inr img \<Rightarrow> (self\<lparr>image_array := img\<rparr>, None)) \<and>
      thumbnail_source (fst (load_sync np_asarray self)) = None \<and>
      transpose_slice np_transpose order self =
        (case np_transpose (image_array self) order of
           Inl e \<Rightarrow> (self, Some e)
         | Inr img \<Rightarrow> (self\<lparr>image_array := img\<rparr>, None)) \<and>
      thumbnail_source (fst (transpose_slice np_transpose order self)) = None)"
proof -
  have l: "layer (fst (load_sync np_asarray self)) = layer self"
    "indices (fst (load_sync np_asarray self)) = indices self"
    "fst (load_sync np_asarray self) =
     self\<lparr>image_array := image_array (fst (load_sync np_asarray self)),
          thumbnail_source := thumbnail_source (fst (load_sync np_asarray self))\<rparr>"
    by (simp_all add: load_sync_def Let_def split: sum.splits option.splits)
  have t: "layer (fst (transpose_slice np_transpose order self)) = layer self"
    "indices (fst (transpose_slice np_transpose order self)) = indices self"
    "fst (transpose_slice np_transpose order self) =
     self\<lparr>image_array := image_array (fst (transpose_slice np_transpose order self)),
          thumbnail_source := thumbnail_source (fst (transpose_slice np_transpose order self))\<rparr>"
    by (simp_all add: transpose_slice_def Let_def split: sum.splits option.splits)
  have n: "load_sync np_asarray self =
        (case np_asarray (image_array self) of
           Inl e \<Rightarrow> (self, Some e)
         | Inr img \<Rightarrow> (self\<lparr>image_array := img\<rparr>, None))"
      "thumbnail_source (fst (load_sync np_asarray self)) = None"
      "transpose_slice np_transpose order self =
        (case np_transpose (image_array self) order of
           Inl e \<Rightarrow> (self, Some e)
         | Inr img \<Rightarrow> (self\<lparr>image_array := img\<rparr>, None))"
      "thumbnail_source (fst (transpose_slice np_transpose order self)) = None"
    if "thumbnail_source self = None"
    using that
    by (simp_all add: load_sync_def transpose_slice_def Let_def split: sum.splits)
  from l t n show ?thesis by blast
qed

text \<open>
  The witness: the slice of the examples has no thumbnail source; loading it returns it
  as it is, transposing it swaps the rows and columns of the image, and an order that
  numpy rejects leaves it as it is.
\<close>

theorem slice_data_frame_witness:
  "thumbnail_source example_slice = None \<and>
   load_sync example_asarray example_slice = (example_slice, None) \<and>
   thumbnail_source (fst (load_sync example_asarray example_slice)) = None \<and>
   transpose_slice example_transpose [1, 0] example_slice =
     (example_slice\<lparr>image_array := [[1, 3], [2, 4]]\<rparr>, None) \<and>
   thumbnail_source (fst (transpose_slice example_transpose [1, 0] example_slice)) = None \<and>
   transpose_slice example_transpose [2, 0] example_slice = (example_slice, Some ValueError) \<and>
   layer (fst (transpose_slice example_transpose [1, 0] example_slice)) = ''image'' \<and>
   indices (fst (transpose_slice example_transpose [1, 0] example_slice)) = [0]"
proof -
  have n: "thumbnail_source example_slice = None"
    by (simp add: example_slice_def)
  have img: "image_array example_slice = [[1, 2], [3, 4]]"
    "layer example_slice = ''image''" "indices example_slice = [0]"
    by (simp_all add: example_slice_def)
  have tr: "transpose [[1, 2], [3, 4 :: int]] = [[1, 3], [2, 4]]"
    by code_simp
  show ?thesis
    using n
      slice_data_frame [of example_asarray example_slice example_transpose "[1, 0]"]
      slice_data_frame [of example_asarray example_slice example_transpose "[2, 0]"]
    by (simp add: img tr example_asarray_def example_transpose_def)
qed

end
